theory Spec2Isabelle
  imports Main "HOL-Library.AList"
begin

section \<open>The de-duplicating, cancellable request client\<close>

text \<open>
  The development embeds the request layer of the dashboard: the class \<open>AxiosRequest\<close>
  (its in-flight registry \<open>abortControllerMap\<close>, the global request interceptor that
  fingerprints and de-duplicates, the terminal response interceptor, \<open>cancelRequest\<close> and
  \<open>cancelAllRequest\<close>) and the factory \<open>creteRequest\<close> with its four caller interceptors
  and \<open>handleError\<close>.

  Conventions. A JavaScript string is a \<^typ>\<open>string\<close> holding its UTF-8 bytes; \<open>undefined\<close> is
  \<^const>\<open>None\<close>. An object that is enumerated with \<open>for ... in\<close> is the list of its (key, value)
  pairs in enumeration order. An \<open>AbortController\<close> is identified by a number, handed out in
  order of creation; the set \<open>aborted\<close> holds the controllers whose \<open>abort()\<close> has run.
  Mutation is explicit state passing. Two builtins of the language are parameters of the
  model: \<open>str\<close>, the string coercion of a template literal, and \<open>parse\<close>, \<open>JSON.parse\<close>
  followed by the enumeration of the parsed object (\<^const>\<open>None\<close> when \<open>JSON.parse\<close> throws
  its \<open>SyntaxError\<close>). Console output is not modelled.
\<close>

subsection \<open>Data\<close>

type_synonym controller = nat

text \<open>\<open>InternalAxiosRequestConfig\<close>: the fields the code reads or writes. \<open>data\<close> is the
  request body when it is a string (the only bodies the brace test of the interceptor can
  accept), \<open>signal\<close> the controller whose signal is attached. The field \<open>method\<close> is
  written \<open>method'\<close>, the plain name being a keyword of Isabelle.\<close>

record 'v request_config =
  method' :: "string option"
  url :: "string option"
  params :: "(string \<times> 'v) list option"
  data :: "string option"
  headers :: "(string \<times> string) list option"
  signal :: "controller option"

text \<open>\<open>ServerResult\<close>, the body of a response; every field may be missing at run time (the
  code reads them through \<open>?.\<close>), and \<open>{}\<close> is the record with no field set.\<close>

record 'a ServerResult =
  code :: "int option"
  message :: "string option"
  result_data :: "'a option"

definition empty_object :: "'a ServerResult" where
  "empty_object = \<lparr>code = None, message = None, result_data = None\<rparr>"

record ('v, 'a) AxiosResponse =
  config :: "'v request_config"
  response_data :: "'a ServerResult option"

text \<open>An error object as the interceptors see it (\<open>RequestCancel\<close> in the types file):
  what kind of error it is, its request configuration and its \<open>data\<close>, both optional.
  \<open>axios.isCancel\<close> holds exactly of a \<open>CanceledError\<close>.\<close>

datatype error_name = SyntaxError | TypeError | CanceledError | AxiosError

record ('v, 'a) RequestCancel =
  err_name :: error_name
  err_config :: "'v request_config option"
  err_data :: "'a ServerResult option"

definition isCancel :: "('v, 'a) RequestCancel \<Rightarrow> bool" where
  "isCancel err = (err_name err = CanceledError)"

text \<open>A settled promise.\<close>

datatype ('e, 'x) promise = Fulfilled 'x | Rejected 'e

text \<open>The instance of \<open>AxiosRequest\<close>: the registry (a \<open>Map\<close>, in insertion order), the
  controllers aborted so far, and the number of controllers created so far.\<close>

record client =
  abortControllerMap :: "(string \<times> controller) list"
  aborted :: "controller set"
  allocated :: nat

text \<open>What the caller interceptors touch in the browser: the token store, \<open>localStorage\<close>
  (read for the language), the current address, the notifier calls made so far and the
  navigations requested so far.\<close>

record notice =
  content :: string
  key :: "string option"

datatype navigation = AssignHash string | AssignHrefAfter nat string

record browser =
  token_store :: "(string \<times> string) list"
  localStorage :: "(string \<times> string) list"
  location_href :: string
  notices :: "notice list"
  navigations :: "navigation list"

subsection \<open>The fingerprint\<close>

text \<open>The two loops \<open>for (const key in o) url += `<sep>${key}=${o[key]}`\<close>, with the
  fingerprint built so far as accumulator.\<close>

fun append_pairs :: "string \<Rightarrow> ('v \<Rightarrow> string) \<Rightarrow> string \<Rightarrow> (string \<times> 'v) list \<Rightarrow> string" where
  "append_pairs sep str acc [] = acc"
| "append_pairs sep str acc ((k, v) # kvs) = append_pairs sep str (acc @ sep @ k @ ''='' @ str v) kvs"

text \<open>The body test \<open>res.data && res.data?.[0] === "{" && res.data?.[res.data?.length - 1] === "}"\<close>.\<close>

definition brace_delimited :: "string \<Rightarrow> bool" where
  "brace_delimited d = (d \<noteq> [] \<and> hd d = CHR ''{'' \<and> last d = CHR ''}'')"

text \<open>Lines 42 to 68 of the global request interceptor: the key under which the request
  is looked up. \<open>JSON.parse\<close> is not guarded, so its \<open>SyntaxError\<close> leaves the function.\<close>

definition fingerprint ::
  "('v \<Rightarrow> string) \<Rightarrow> (string \<Rightarrow> (string \<times> 'v) list option) \<Rightarrow> 'v request_config \<Rightarrow> error_name + string" where
  "fingerprint str parse res =
     (let u0 = (case method' res of None \<Rightarrow> [] | Some m \<Rightarrow> m);
          u1 = (case url res of None \<Rightarrow> u0 | Some u \<Rightarrow> if u = [] then u0 else u0 @ ''^'' @ u);
          u2 = (case params res of None \<Rightarrow> u1 | Some ps \<Rightarrow> append_pairs ''&'' str u1 ps)
      in case data res of
           None \<Rightarrow> Inr u2
         | Some d \<Rightarrow>
             if brace_delimited d then
               (case parse d of
                  None \<Rightarrow> Inl SyntaxError
                | Some obj \<Rightarrow> Inr (append_pairs ''#'' str u2 obj))
             else Inr u2)"

subsection \<open>The class \<open>AxiosRequest\<close>\<close>

datatype url_arg = Single string | Several "string list"

definition urlList :: "url_arg \<Rightarrow> string list" where
  "urlList u = (case u of Single x \<Rightarrow> [x] | Several xs \<Rightarrow> xs)"

text \<open>The loop of \<open>cancelRequest\<close>: \<open>get(_url)?.abort()\<close>, then \<open>delete(_url)\<close>.\<close>

fun cancel_each :: "string list \<Rightarrow> client \<Rightarrow> client" where
  "cancel_each [] s = s"
| "cancel_each (u # us) s =
     cancel_each us
       (s\<lparr>aborted := (case map_of (abortControllerMap s) u of
                         None \<Rightarrow> aborted s
                       | Some c \<Rightarrow> insert c (aborted s)),
          abortControllerMap := AList.delete u (abortControllerMap s)\<rparr>)"

definition cancelRequest :: "url_arg \<Rightarrow> client \<Rightarrow> client" where
  "cancelRequest u s = cancel_each (urlList u) s"

text \<open>The loop of \<open>cancelAllRequest\<close> over the entries of the registry.\<close>

fun abort_all :: "(string \<times> controller) list \<Rightarrow> controller set \<Rightarrow> controller set" where
  "abort_all [] A = A"
| "abort_all ((k, c) # es) A = abort_all es (insert c A)"

definition cancelAllRequest :: "client \<Rightarrow> client" where
  "cancelAllRequest s =
     s\<lparr>aborted := abort_all (abortControllerMap s) (aborted s), abortControllerMap := []\<rparr>"

text \<open>The global request interceptor. A controller is created and its signal attached to
  the request; then the fingerprint is computed; then either the entry found under the
  fingerprint is cancelled, or (in the \<open>else\<close> branch) the new controller is stored.\<close>

definition globalRequestInterceptor ::
  "('v \<Rightarrow> string) \<Rightarrow> (string \<Rightarrow> (string \<times> 'v) list option) \<Rightarrow> client \<Rightarrow> 'v request_config
     \<Rightarrow> (error_name + 'v request_config) \<times> client" where
  "globalRequestInterceptor str parse s res =
     (let controller = allocated s;
          s1 = s\<lparr>allocated := Suc (allocated s)\<rparr>;
          res1 = res\<lparr>signal := Some controller\<rparr>
      in case fingerprint str parse res1 of
           Inl e \<Rightarrow> (Inl e, s1)
         | Inr u \<Rightarrow>
             (case map_of (abortControllerMap s1) u of
                Some c \<Rightarrow> (Inr res1, cancelRequest (Single u) s1)
              | None \<Rightarrow>
                  (Inr res1, s1\<lparr>abortControllerMap := AList.update u controller (abortControllerMap s1)\<rparr>)))"

text \<open>The terminal response interceptor, \<open>(res) => { ... delete(res.config.url || "") ...
  return res.data }\<close>. It receives whatever the caller stage resolved with: a response, or
  an error object that \<open>responseInterceptorsCatch\<close> returned. Reading \<open>.url\<close> of a missing
  \<open>config\<close> throws a \<open>TypeError\<close>.\<close>

datatype ('v, 'a) stage_value =
  Response "('v, 'a) AxiosResponse"
| ErrorObject "('v, 'a) RequestCancel"

definition value_config :: "('v, 'a) stage_value \<Rightarrow> 'v request_config option" where
  "value_config x = (case x of Response r \<Rightarrow> Some (config r) | ErrorObject e \<Rightarrow> err_config e)"

definition value_data :: "('v, 'a) stage_value \<Rightarrow> 'a ServerResult option" where
  "value_data x = (case x of Response r \<Rightarrow> response_data r | ErrorObject e \<Rightarrow> err_data e)"

definition terminalResponseInterceptor ::
  "client \<Rightarrow> ('v, 'a) stage_value \<Rightarrow> (error_name + 'a ServerResult option) \<times> client" where
  "terminalResponseInterceptor s res =
     (case value_config res of
        None \<Rightarrow> (Inl TypeError, s)
      | Some cfg \<Rightarrow>
          (let u = (case url cfg of None \<Rightarrow> [] | Some x \<Rightarrow> x)
           in (Inr (value_data res), s\<lparr>abortControllerMap := AList.delete u (abortControllerMap s)\<rparr>)))"

subsection \<open>The collaborators of \<open>creteRequest\<close>\<close>

text \<open>Modelled from the spec: the token store \<open>getLocalInfo\<close> / \<open>removeLocalInfo\<close> of the
  package \<open>@south/utils\<close>, which lies outside the request package. The specification
  gives it as \<open>get(key) -> string | empty\<close> and \<open>remove(key)\<close>.\<close>

definition getLocalInfo :: "browser \<Rightarrow> string \<Rightarrow> string option" where
  "getLocalInfo b k = map_of (token_store b) k"

definition removeLocalInfo :: "string \<Rightarrow> browser \<Rightarrow> browser" where
  "removeLocalInfo k b = b\<lparr>token_store := AList.delete k (token_store b)\<rparr>"

text \<open>Modelled from the spec: the notifier \<open>message.error\<close> of the package
  \<open>@south/message\<close>, \<open>error(content, key?)\<close>; a call is recorded in order.\<close>

definition message_error :: "notice \<Rightarrow> browser \<Rightarrow> browser" where
  "message_error n b = b\<lparr>notices := notices b @ [n]\<rparr>"

subsection \<open>The messages\<close>

definition enMsg :: string where
  "enMsg = ''Insufficient permissions, please log in again!''"

definition zhMsg :: string where
  "zhMsg = [CHR 0xE6, CHR 0x9D, CHR 0x83, CHR 0xE9, CHR 0x99, CHR 0x90, CHR 0xE4, CHR 0xB8,
     CHR 0x8D, CHR 0xE8, CHR 0xB6, CHR 0xB3, CHR 0xEF, CHR 0xBC, CHR 0x8C, CHR 0xE8, CHR 0xAF,
     CHR 0xB7, CHR 0xE9, CHR 0x87, CHR 0x8D, CHR 0xE6, CHR 0x96, CHR 0xB0, CHR 0xE7, CHR 0x99,
     CHR 0xBB, CHR 0xE5, CHR 0xBD, CHR 0x95, CHR 0xEF, CHR 0xBC, CHR 0x81]"

definition timeout_message :: string where
  "timeout_message = [CHR 0xE8, CHR 0xAF, CHR 0xB7, CHR 0xE6, CHR 0xB1, CHR 0x82, CHR 0xE8,
     CHR 0xB6, CHR 0x85, CHR 0xE6, CHR 0x97, CHR 0xB6, CHR 0xEF, CHR 0xBC, CHR 0x81]"

definition server_error_message :: string where
  "server_error_message = [CHR 0xE6, CHR 0x9C, CHR 0x8D, CHR 0xE5, CHR 0x8A, CHR 0xA1, CHR 0xE5,
     CHR 0x99, CHR 0xA8, CHR 0xE9, CHR 0x94, CHR 0x99, CHR 0xE8, CHR 0xAF, CHR 0xAF]"

definition server_error_exclaimed :: string where
  "server_error_exclaimed = server_error_message @ [CHR 0xEF, CHR 0xBC, CHR 0x81]"

subsection \<open>The caller interceptors and \<open>handleError\<close>\<close>

text \<open>\<open>a || b\<close> on an optional string: the left operand when it is a non-empty string.\<close>

definition or_else :: "string option \<Rightarrow> string \<Rightarrow> string" where
  "or_else a b = (case a of None \<Rightarrow> b | Some x \<Rightarrow> if x = [] then b else x)"

definition handleError :: "string option \<Rightarrow> string option \<Rightarrow> browser \<Rightarrow> browser" where
  "handleError error content' b =
     message_error
       \<lparr>content = or_else content' (or_else error server_error_message), key = Some ''error''\<rparr> b"

definition requestInterceptors :: "string \<Rightarrow> browser \<Rightarrow> 'v request_config \<Rightarrow> 'v request_config" where
  "requestInterceptors tokenKey b res =
     (let tokenLocal = or_else (getLocalInfo b tokenKey) []
      in case headers res of
           None \<Rightarrow> res
         | Some h \<Rightarrow>
             if tokenLocal = [] then res
             else res\<lparr>headers := Some (AList.update ''Authorization'' tokenLocal h)\<rparr>)"

definition requestInterceptorsCatch ::
  "('v, 'a) RequestCancel \<Rightarrow> browser \<Rightarrow> ('v, 'a) RequestCancel \<times> browser" where
  "requestInterceptorsCatch err b = (err, message_error \<lparr>content = timeout_message, key = None\<rparr> b)"

definition code_is :: "int \<Rightarrow> 'a ServerResult option \<Rightarrow> bool" where
  "code_is n d = (case d of None \<Rightarrow> False | Some p \<Rightarrow> code p = Some n)"

definition message_of :: "'a ServerResult option \<Rightarrow> string option" where
  "message_of d = (case d of None \<Rightarrow> None | Some p \<Rightarrow> message p)"

definition responseInterceptors ::
  "string \<Rightarrow> ('v, 'a) AxiosResponse \<Rightarrow> browser \<Rightarrow> ('v, 'a) AxiosResponse \<times> browser" where
  "responseInterceptors tokenKey res b =
     (let d = response_data res in
      if code_is 401 d then
        (let lang = map_of (localStorage b) ''lang'';
             msg = (if lang = Some ''en'' then enMsg else zhMsg);
             b1 = removeLocalInfo tokenKey b;
             b2 = message_error \<lparr>content = msg, key = Some ''error''\<rparr> b1;
             href = location_href b2;
             b3 = (if CHR ''#'' \<in> set href
                   then b2\<lparr>navigations := navigations b2 @ [AssignHash ''/login'']\<rparr>
                   else b2\<lparr>navigations := navigations b2 @ [AssignHrefAfter 1000 ''/login'']\<rparr>)
         in (res, b3))
      else if \<not> code_is 200 d then (res, handleError (message_of d) None b)
      else (res, b))"

definition responseInterceptorsCatch ::
  "('v, 'a) RequestCancel \<Rightarrow> browser \<Rightarrow> ('v, 'a) RequestCancel \<times> browser" where
  "responseInterceptorsCatch err b =
     (if isCancel err then
        (err\<lparr>err_data := (case err_data err of None \<Rightarrow> Some empty_object | Some x \<Rightarrow> Some x)\<rparr>, b)
      else (err, handleError (Some server_error_exclaimed) None b))"

subsection \<open>The response side of the interceptor chain\<close>

text \<open>What the promise of a call settles with: the terminal stage returns \<open>res.data\<close>, its
  error handler \<open>(err) => err\<close> returns the error object.\<close>

datatype ('v, 'a) returned =
  Payload "'a ServerResult option"
| ReturnedError "('v, 'a) RequestCancel"

text \<open>The chain is \<open>p.then(responseInterceptors, responseInterceptorsCatch)
  .then(terminal, (err) => err)\<close>, where \<open>p\<close> is the outcome of the transport (or the
  rejection of a request interceptor, which skips the transport). A handler that returns
  fulfils the next promise with what it returns; a handler that throws rejects it.\<close>

definition settle ::
  "string \<Rightarrow> (('v, 'a) RequestCancel, ('v, 'a) AxiosResponse) promise \<Rightarrow> browser \<times> client
     \<Rightarrow> (('v, 'a) RequestCancel, ('v, 'a) returned) promise \<times> browser \<times> client" where
  "settle tokenKey p bs =
     (let b = fst bs; s = snd bs;
          (p1, b1) =
            (case p of
               Fulfilled res \<Rightarrow>
                 (let (r, b') = responseInterceptors tokenKey res b
                  in (Fulfilled (Response r) :: (('v, 'a) RequestCancel, ('v, 'a) stage_value) promise, b'))
             | Rejected err \<Rightarrow>
                 (let (e, b') = responseInterceptorsCatch err b
                  in (Fulfilled (ErrorObject e), b')))
      in case p1 of
           Fulfilled x \<Rightarrow>
             (case terminalResponseInterceptor s x of
                (Inl t, s') \<Rightarrow> (Rejected \<lparr>err_name = t, err_config = None, err_data = None\<rparr>, b1, s')
              | (Inr d, s') \<Rightarrow> (Fulfilled (Payload d), b1, s'))
         | Rejected err \<Rightarrow> (Fulfilled (ReturnedError err), b1, s))"

text \<open>The client as constructed: nothing in flight.\<close>

definition new_client :: client where
  "new_client = \<lparr>abortControllerMap = [], aborted = {}, allocated = 0\<rparr>"

subsection \<open>The fingerprint in the words of the specification\<close>


definition pairs_segment :: "string \<Rightarrow> ('v \<Rightarrow> string) \<Rightarrow> (string \<times> 'v) list \<Rightarrow> string" where
  "pairs_segment sep str kvs = concat (map (\<lambda>(k, v). sep @ k @ ''='' @ str v) kvs)"


subsection \<open>The invariant of the registry\<close>

text \<open>What every state of a client satisfies: the registry is a \<open>Map\<close> (each key once), no
  controller is stored under two keys, every stored controller has been created and is
  not aborted, and only created controllers are aborted.\<close>

definition registry_ok :: "client \<Rightarrow> bool" where
  "registry_ok s =
     (distinct (map fst (abortControllerMap s)) \<and> distinct (map snd (abortControllerMap s))
      \<and> list_all (\<lambda>e. snd e < allocated s \<and> snd e \<notin> aborted s) (abortControllerMap s)
      \<and> (\<forall>c \<in> aborted s. c < allocated s))"

section \<open>Properties of the registry\<close>

subsection \<open>The invariant is kept\<close>

lemma registry_ok_new: "registry_ok new_client"
  by (simp add: registry_ok_def new_client_def)

lemma delete_filter: "AList.delete u m = filter (\<lambda>e. fst e \<noteq> u) m"
  by (induction m) auto

lemma update_fresh_key: "u \<notin> fst ` set m \<Longrightarrow> AList.update u c m = m @ [(u, c)]"
  by (induction m) auto

lemma entry_other_handle:
  assumes "distinct (map snd m)" and "map_of m u = Some c" and "e \<in> set m" and "fst e \<noteq> u"
  shows "snd e \<noteq> c"
proof
  assume "snd e = c"
  have "(u, c) \<in> set m" using assms(2) by (rule map_of_SomeD)
  moreover have "inj_on snd (set m)" using assms(1) by (simp add: distinct_map)
  ultimately have "e = (u, c)"
    using assms(3) \<open>snd e = c\<close> by (auto dest: inj_onD [of snd "set m" e "(u, c)"])
  with assms(4) show False by simp
qed

lemma registry_ok_cancel_step:
  assumes "registry_ok s"
  shows "registry_ok (s\<lparr>aborted := (case map_of (abortControllerMap s) u of
                         None \<Rightarrow> aborted s
                       | Some c \<Rightarrow> insert c (aborted s)),
          abortControllerMap := AList.delete u (abortControllerMap s)\<rparr>)"
proof (cases "map_of (abortControllerMap s) u")
  case None
  then show ?thesis
    using assms by (auto simp: registry_ok_def delete_filter distinct_map_filter list_all_iff)
next
  case (Some c)
  have "(u, c) \<in> set (abortControllerMap s)" using Some by (rule map_of_SomeD)
  then have "c < allocated s" using assms by (auto simp: registry_ok_def list_all_iff)
  then show ?thesis
    using assms Some
    by (auto simp: registry_ok_def delete_filter distinct_map_filter list_all_iff
        dest: entry_other_handle)
qed

lemma registry_ok_cancel_each: "registry_ok s \<Longrightarrow> registry_ok (cancel_each us s)"
proof (induction us arbitrary: s)
  case Nil
  then show ?case by simp
next
  case (Cons u us)
  show ?case
    unfolding cancel_each.simps
    by (rule Cons.IH) (rule registry_ok_cancel_step [OF Cons.prems])
qed

lemma registry_ok_cancelRequest: "registry_ok s \<Longrightarrow> registry_ok (cancelRequest arg s)"
  by (simp add: cancelRequest_def registry_ok_cancel_each)

lemma abort_all_eq: "abort_all es A = A \<union> snd ` set es"
  by (induction es A rule: abort_all.induct) auto

lemma registry_ok_cancelAllRequest: "registry_ok s \<Longrightarrow> registry_ok (cancelAllRequest s)"
  by (auto simp: registry_ok_def cancelAllRequest_def abort_all_eq list_all_iff)

lemma registry_ok_terminal: "registry_ok s \<Longrightarrow> registry_ok (snd (terminalResponseInterceptor s x))"
  by (auto simp: registry_ok_def terminalResponseInterceptor_def delete_filter distinct_map_filter
      list_all_iff split: option.splits)

lemma registry_ok_alloc: "registry_ok s \<Longrightarrow> registry_ok (s\<lparr>allocated := Suc (allocated s)\<rparr>)"
  by (auto simp: registry_ok_def list_all_iff less_Suc_eq)

lemma registry_ok_store:
  assumes "registry_ok s" and "map_of (abortControllerMap s) u = None"
  shows "registry_ok (s\<lparr>allocated := Suc (allocated s),
                        abortControllerMap := AList.update u (allocated s) (abortControllerMap s)\<rparr>)"
proof -
  have fresh: "u \<notin> fst ` set (abortControllerMap s)"
    using assms(2) by (simp add: map_of_eq_None_iff)
  then have upd: "AList.update u (allocated s) (abortControllerMap s) = abortControllerMap s @ [(u, allocated s)]"
    by (rule update_fresh_key)
  show ?thesis
    using assms(1) fresh by (auto simp: registry_ok_def upd list_all_iff less_Suc_eq)
qed

lemma registry_ok_request:
  "registry_ok s \<Longrightarrow> registry_ok (snd (globalRequestInterceptor str parse s res))"
  by (auto simp: globalRequestInterceptor_def Let_def registry_ok_alloc registry_ok_cancelRequest
      dest: registry_ok_store split: sum.splits option.splits)

subsection \<open>What \<open>cancelRequest\<close> and \<open>cancelAllRequest\<close> do to the registry\<close>


lemma cancel_each_allocated: "allocated (cancel_each us s) = allocated s"
  by (induction us arbitrary: s) auto




lemma delete_absent: "map_of m u = None \<Longrightarrow> AList.delete u m = m"
  by (induction m) (auto split: if_splits)

lemma cancelRequest_absent_noop:
  "map_of (abortControllerMap s) u = None \<Longrightarrow> cancelRequest (Single u) s = s"
  by (simp add: cancelRequest_def urlList_def delete_absent)

lemma cancelAllRequest_empties:
  "abortControllerMap (cancelAllRequest s) = []
   \<and> aborted (cancelAllRequest s) = aborted s \<union> snd ` set (abortControllerMap s)"
  by (simp add: cancelAllRequest_def abort_all_eq)

subsection \<open>The request stage\<close>

lemma append_pairs_eq: "append_pairs sep str acc kvs = acc @ pairs_segment sep str kvs"
  by (induction kvs arbitrary: acc) (auto simp: pairs_segment_def)

lemma fingerprint_signal: "fingerprint str parse (res\<lparr>signal := x\<rparr>) = fingerprint str parse res"
  by (simp add: fingerprint_def)

lemma first_request_registered:
  assumes "fingerprint str parse res = Inr u" and "map_of (abortControllerMap s) u = None"
  shows "fst (globalRequestInterceptor str parse s res) = Inr (res\<lparr>signal := Some (allocated s)\<rparr>)
       \<and> map_of (abortControllerMap (snd (globalRequestInterceptor str parse s res))) u = Some (allocated s)
       \<and> aborted (snd (globalRequestInterceptor str parse s res)) = aborted s"
  using assms by (simp add: globalRequestInterceptor_def Let_def fingerprint_signal update_conv')

lemma duplicate_request_drops_entry:
  assumes "fingerprint str parse res = Inr u" and "map_of (abortControllerMap s) u = Some c"
  shows "fst (globalRequestInterceptor str parse s res) = Inr (res\<lparr>signal := Some (allocated s)\<rparr>)
       \<and> map_of (abortControllerMap (snd (globalRequestInterceptor str parse s res))) u = None
       \<and> aborted (snd (globalRequestInterceptor str parse s res)) = insert c (aborted s)"
  using assms
  by (simp add: globalRequestInterceptor_def Let_def fingerprint_signal cancelRequest_def urlList_def
      delete_conv')

lemma fingerprint_longer_than_url:
  assumes "method' res = Some m" and "m \<noteq> []" and "fingerprint str parse res = Inr fp"
  shows "length (case url res of None \<Rightarrow> [] | Some x \<Rightarrow> x) < length fp"
  using assms
  by (auto simp: fingerprint_def append_pairs_eq Let_def split: option.splits if_splits)

lemma terminal_keeps_fingerprint_entry:
  assumes "method' cfg = Some m" and "m \<noteq> []" and "fingerprint str parse cfg = Inr fp"
    and "value_config x = Some cfg"
  shows "map_of (abortControllerMap (snd (terminalResponseInterceptor s x))) fp
           = map_of (abortControllerMap s) fp"
proof -
  have "fp \<noteq> (case url cfg of None \<Rightarrow> [] | Some x \<Rightarrow> x)"
    using fingerprint_longer_than_url [OF assms(1-3)] by auto
  then show ?thesis
    using assms(4) by (simp add: terminalResponseInterceptor_def)
qed

subsection \<open>The response stage\<close>

lemma get_after_remove: "getLocalInfo (removeLocalInfo k b) k = None"
  by (simp add: getLocalInfo_def removeLocalInfo_def delete_conv')

lemma settle_without_config_rejects:
  assumes "err_config err = None"
  shows "fst (settle tokenKey (Rejected err) (b, s))
           = Rejected \<lparr>err_name = TypeError, err_config = None, err_data = None\<rparr>"
  using assms
  by (simp add: settle_def responseInterceptorsCatch_def terminalResponseInterceptor_def
      value_config_def split: prod.splits)

lemma settle_cancel_is_silent:
  assumes "isCancel err"
  shows "fst (snd (settle tokenKey (Rejected err) (b, s))) = b"
  using assms
  by (simp add: settle_def responseInterceptorsCatch_def terminalResponseInterceptor_def
      value_config_def split: prod.splits option.splits)

lemma settle_failure_notifies:
  assumes "\<not> isCancel err"
  shows "fst (snd (settle tokenKey (Rejected err) (b, s)))
           = b\<lparr>notices := notices b @ [\<lparr>content = server_error_exclaimed, key = Some ''error''\<rparr>]\<rparr>"
  using assms
  by (simp add: settle_def responseInterceptorsCatch_def terminalResponseInterceptor_def
      value_config_def handleError_def message_error_def or_else_def server_error_exclaimed_def
      split: prod.splits option.splits)

section \<open>The claims\<close>

text \<open>
  Claim C1. A request dispatched while the registry holds an entry for its fingerprint
  should abort and remove the old entry and store a fresh handle for itself, so that the
  registry then holds exactly one live handle under the fingerprint. On the code the old
  handle is aborted and removed, but the new controller is stored only in the \<open>else\<close>
  branch: after \<open>GET /x\<close> is dispatched twice the registry is empty, controller \<open>0\<close> is
  aborted and controller \<open>1\<close>, attached to the second request, is stored nowhere.
\<close>

theorem duplicate_request_is_not_registered:
  "snd (globalRequestInterceptor str parse
          (snd (globalRequestInterceptor str parse new_client
             \<lparr>method' = Some ''get'', url = Some ''/x'', params = None, data = None,
              headers = None, signal = None\<rparr>))
          \<lparr>method' = Some ''get'', url = Some ''/x'', params = None, data = None,
           headers = None, signal = None\<rparr>)
   = \<lparr>abortControllerMap = [], aborted = {0}, allocated = 2\<rparr>"
  by (simp add: globalRequestInterceptor_def fingerprint_def new_client_def cancelRequest_def
      urlList_def)

text \<open>
  Claim C2. The claim has a transport failure or a cancellation reject the promise of the
  call, and a response with a non-200 business code resolve it with the body. On the code
  every error handler returns the error object instead of throwing it, so the promise of
  a failed call is fulfilled as well: here a transport failure resolves with \<open>undefined\<close>
  (the \<open>data\<close> of the error object).
\<close>

theorem transport_failure_resolves:
  "fst (settle ''token''
      (Rejected \<lparr>err_name = AxiosError,
                 err_config = Some \<lparr>method' = Some ''get'', url = Some ''/x'',
                    params = None :: (string \<times> string) list option,
                    data = None, headers = None, signal = Some 0\<rparr>,
                 err_data = None :: unit ServerResult option\<rparr>)
      (\<lparr>token_store = [], localStorage = [], location_href = ''http://host/'', notices = [],
        navigations = []\<rparr>,
       \<lparr>abortControllerMap = [(''get^/x'', 0)], aborted = {}, allocated = 1\<rparr>))
   = Fulfilled (Payload None)"
  by (simp add: settle_def responseInterceptorsCatch_def isCancel_def terminalResponseInterceptor_def
      value_config_def value_data_def)

text \<open>
  Claim C2, as the code has it. A rejection whose error object carries its request
  configuration resolves the promise of the call with the \<open>data\<close> of the error object,
  which for a cancellation is \<open>{}\<close> when it had none; a response resolves the promise with
  its body, whatever the business code.
\<close>

theorem settle_resolves:
  "(err_config err = Some cfg \<longrightarrow>
      fst (settle tokenKey (Rejected err) (b, s)) =
        Fulfilled (Payload (if isCancel err
                            then (case err_data err of None \<Rightarrow> Some empty_object | Some x \<Rightarrow> Some x)
                            else err_data err)))
   \<and> fst (settle tokenKey (Fulfilled res) (b, s)) = Fulfilled (Payload (response_data res))"
  by (simp add: settle_def responseInterceptorsCatch_def responseInterceptors_def Let_def
      terminalResponseInterceptor_def value_config_def value_data_def split: prod.splits)

theorem settle_resolves_witness:
  "fst (settle ''token''
      (Rejected \<lparr>err_name = CanceledError,
                 err_config = Some \<lparr>method' = Some ''get'', url = Some ''/x'',
                    params = None :: (string \<times> string) list option,
                    data = None, headers = None, signal = Some 0\<rparr>,
                 err_data = None :: unit ServerResult option\<rparr>)
      (\<lparr>token_store = [], localStorage = [], location_href = ''http://host/'', notices = [],
        navigations = []\<rparr>,
       \<lparr>abortControllerMap = [], aborted = {0}, allocated = 1\<rparr>))
     = Fulfilled (Payload (Some \<lparr>code = None, message = None, result_data = None\<rparr>))
   \<and> fst (settle ''token''
      (Fulfilled \<lparr>config = \<lparr>method' = Some ''get'', url = Some ''/x'',
                    params = None :: (string \<times> string) list option,
                    data = None, headers = None, signal = Some 0\<rparr>,
                  response_data = Some \<lparr>code = Some 404, message = Some ''gone'',
                    result_data = None :: unit option\<rparr>\<rparr>)
      (\<lparr>token_store = [], localStorage = [], location_href = ''http://host/'', notices = [],
        navigations = []\<rparr>,
       \<lparr>abortControllerMap = [], aborted = {0}, allocated = 1\<rparr>))
     = Fulfilled (Payload (Some \<lparr>code = Some 404, message = Some ''gone'', result_data = None\<rparr>))"
  using settle_resolves [of
      "\<lparr>err_name = CanceledError,
        err_config = Some \<lparr>method' = Some ''get'', url = Some ''/x'',
           params = None :: (string \<times> string) list option,
           data = None, headers = None, signal = Some 0\<rparr>,
        err_data = None :: unit ServerResult option\<rparr>"
      "\<lparr>method' = Some ''get'', url = Some ''/x'', params = None, data = None, headers = None,
        signal = Some 0\<rparr>"
      "''token''"
      "\<lparr>token_store = [], localStorage = [], location_href = ''http://host/'', notices = [],
        navigations = []\<rparr>"
      "\<lparr>abortControllerMap = [], aborted = {0}, allocated = 1\<rparr>"
      "\<lparr>config = \<lparr>method' = Some ''get'', url = Some ''/x'',
                    params = None :: (string \<times> string) list option,
                    data = None, headers = None, signal = Some 0\<rparr>,
        response_data = Some \<lparr>code = Some 404, message = Some ''gone'',
                    result_data = None :: unit option\<rparr>\<rparr>"]
  by (simp add: isCancel_def empty_object_def settle_def responseInterceptors_def code_is_def
      message_of_def handleError_def message_error_def or_else_def terminalResponseInterceptor_def
      value_config_def value_data_def)

text \<open>
  Claim C3. When a response reaches the terminal stage, the entry registered under the
  fingerprint of its request should leave the registry. The terminal stage deletes the key
  \<open>res.config.url\<close>, the bare url, while the entry sits under the fingerprint: \<open>GET /x\<close> is
  registered under \<open>get^/x\<close>, the terminal stage deletes \<open>/x\<close>, and the entry stays.
\<close>

theorem completed_request_stays_registered:
  "globalRequestInterceptor str parse new_client
      \<lparr>method' = Some ''get'', url = Some ''/x'', params = None, data = None, headers = None,
       signal = None\<rparr>
     = (Inr \<lparr>method' = Some ''get'', url = Some ''/x'', params = None, data = None, headers = None,
             signal = Some 0\<rparr>,
        \<lparr>abortControllerMap = [(''get^/x'', 0)], aborted = {}, allocated = 1\<rparr>)
   \<and> terminalResponseInterceptor \<lparr>abortControllerMap = [(''get^/x'', 0)], aborted = {}, allocated = 1\<rparr>
       (Response \<lparr>config = \<lparr>method' = Some ''get'', url = Some ''/x'', params = None, data = None,
                             headers = None, signal = Some 0\<rparr>,
                  response_data = Some \<lparr>code = Some 200, message = None, result_data = Some ()\<rparr>\<rparr>)
     = (Inr (Some \<lparr>code = Some 200, message = None, result_data = Some ()\<rparr>),
        \<lparr>abortControllerMap = [(''get^/x'', 0)], aborted = {}, allocated = 1\<rparr>)"
  by (simp add: globalRequestInterceptor_def fingerprint_def new_client_def
      terminalResponseInterceptor_def value_config_def value_data_def)

text \<open>
  Claim C4. A body that starts with \<open>{\<close> and ends with \<open>}\<close> but is not JSON should leave
  the request stage without an exception and contribute nothing to the fingerprint. The
  call of \<open>JSON.parse\<close> is not guarded: whenever it throws on such a body the stage throws
  the \<open>SyntaxError\<close>, having created a controller and stored nothing.
\<close>

theorem malformed_body_throws:
  assumes "data res = Some d" and "brace_delimited d" and "parse d = None"
  shows "globalRequestInterceptor str parse s res
           = (Inl SyntaxError, s\<lparr>allocated := Suc (allocated s)\<rparr>)"
  using assms by (simp add: globalRequestInterceptor_def fingerprint_def Let_def)

theorem malformed_body_throws_witness:
  "brace_delimited ''{a}''
   \<and> globalRequestInterceptor (\<lambda>v. v) (\<lambda>d. if d = ''{}'' then Some [] else None) new_client
       \<lparr>method' = Some ''post'', url = Some ''/x'', params = None, data = Some ''{a}'',
        headers = None, signal = None\<rparr>
     = (Inl SyntaxError, \<lparr>abortControllerMap = [], aborted = {}, allocated = 1\<rparr>)"
  using malformed_body_throws [of
      "\<lparr>method' = Some ''post'', url = Some ''/x'', params = None, data = Some ''{a}'',
        headers = None, signal = None\<rparr>"
      "''{a}''" "\<lambda>d. if d = ''{}'' then Some [] else None" "\<lambda>v. v" new_client]
  by (simp add: brace_delimited_def new_client_def)

text \<open>
  Claim C5. After \<open>cancelAllRequest\<close> the registry should be empty and every request that
  was pending should have been cancelled. The registry is emptied and every controller in
  it aborted (lemma \<open>cancelAllRequest_empties\<close>), but a request dispatched as a duplicate
  was never stored: after \<open>GET /x\<close> is dispatched twice, the second request carries
  controller \<open>1\<close>, the registry is empty, and \<open>cancelAllRequest\<close> aborts nothing more.
\<close>

theorem cancelAllRequest_misses_duplicate:
  "globalRequestInterceptor str parse
     (snd (globalRequestInterceptor str parse new_client
        \<lparr>method' = Some ''get'', url = Some ''/x'', params = None, data = None, headers = None,
         signal = None\<rparr>))
     \<lparr>method' = Some ''get'', url = Some ''/x'', params = None, data = None, headers = None,
      signal = None\<rparr>
   = (Inr \<lparr>method' = Some ''get'', url = Some ''/x'', params = None, data = None, headers = None,
           signal = Some 1\<rparr>,
      \<lparr>abortControllerMap = [], aborted = {0}, allocated = 2\<rparr>)
   \<and> cancelAllRequest \<lparr>abortControllerMap = [], aborted = {0}, allocated = 2\<rparr>
     = \<lparr>abortControllerMap = [], aborted = {0}, allocated = 2\<rparr>
   \<and> 1 \<notin> aborted (cancelAllRequest \<lparr>abortControllerMap = [], aborted = {0}, allocated = 2\<rparr>)"
  by (simp add: globalRequestInterceptor_def fingerprint_def new_client_def cancelRequest_def
      urlList_def cancelAllRequest_def)

text \<open>
  Claim C6. For every response whose body carries the code 401, \<open>responseInterceptors\<close>
  removes the stored credential, so that the token store then returns nothing for the key,
  makes one error notification (in the language \<open>localStorage\<close> names), requests the
  navigation to \<open>/login\<close> (by the hash when the current address contains \<open>#\<close>, otherwise by a
  full navigation after 1000 ms), and returns the response it was given.
\<close>

theorem unauthorized_response:
  assumes "code_is 401 (response_data res)"
  shows "fst (responseInterceptors tokenKey res b) = res
       \<and> getLocalInfo (snd (responseInterceptors tokenKey res b)) tokenKey = None
       \<and> notices (snd (responseInterceptors tokenKey res b)) =
           notices b @ [\<lparr>content = (if map_of (localStorage b) ''lang'' = Some ''en'' then enMsg else zhMsg),
                         key = Some ''error''\<rparr>]
       \<and> navigations (snd (responseInterceptors tokenKey res b)) =
           navigations b @ [if CHR ''#'' \<in> set (location_href b) then AssignHash ''/login''
                            else AssignHrefAfter 1000 ''/login'']"
  using assms
  by (simp add: responseInterceptors_def Let_def message_error_def removeLocalInfo_def
      getLocalInfo_def delete_conv')

theorem unauthorized_response_witness:
  "code_is 401 (Some \<lparr>code = Some 401, message = Some ''expired'', result_data = None :: unit option\<rparr>)
   \<and> responseInterceptors ''token''
        \<lparr>config = \<lparr>method' = Some ''get'', url = Some ''/x'',
                    params = None :: (string \<times> string) list option,
                    data = None, headers = None, signal = Some 0\<rparr>,
         response_data = Some \<lparr>code = Some 401, message = Some ''expired'',
                    result_data = None :: unit option\<rparr>\<rparr>
        \<lparr>token_store = [(''token'', ''tok-123'')], localStorage = [(''lang'', ''en'')],
         location_href = ''http://host/#/dashboard'', notices = [], navigations = []\<rparr>
     = (\<lparr>config = \<lparr>method' = Some ''get'', url = Some ''/x'', params = None,
                    data = None, headers = None, signal = Some 0\<rparr>,
         response_data = Some \<lparr>code = Some 401, message = Some ''expired'', result_data = None\<rparr>\<rparr>,
        \<lparr>token_store = [], localStorage = [(''lang'', ''en'')],
         location_href = ''http://host/#/dashboard'',
         notices = [\<lparr>content = enMsg, key = Some ''error''\<rparr>],
         navigations = [AssignHash ''/login'']\<rparr>)"
  using unauthorized_response [of
      "\<lparr>config = \<lparr>method' = Some ''get'', url = Some ''/x'',
                    params = None :: (string \<times> string) list option,
                    data = None, headers = None, signal = Some 0\<rparr>,
        response_data = Some \<lparr>code = Some 401, message = Some ''expired'',
                    result_data = None :: unit option\<rparr>\<rparr>"
      "''token''"
      "\<lparr>token_store = [(''token'', ''tok-123'')], localStorage = [(''lang'', ''en'')],
        location_href = ''http://host/#/dashboard'', notices = [], navigations = []\<rparr>"]
  by (simp add: code_is_def responseInterceptors_def Let_def message_error_def removeLocalInfo_def)

text \<open>
  Claim C7. For every response whose body code is neither 200 nor 401 (a missing body or
  code included), \<open>responseInterceptors\<close> leaves the token store and the navigations as
  they were and makes exactly one notifier call, with the message of the server when that
  is a non-empty string and with the generic message otherwise; the response is returned.
\<close>

theorem business_error_response:
  assumes "\<not> code_is 200 (response_data res)" and "\<not> code_is 401 (response_data res)"
  shows "fst (responseInterceptors tokenKey res b) = res
       \<and> token_store (snd (responseInterceptors tokenKey res b)) = token_store b
       \<and> navigations (snd (responseInterceptors tokenKey res b)) = navigations b
       \<and> notices (snd (responseInterceptors tokenKey res b)) =
           notices b @ [\<lparr>content = (case message_of (response_data res) of
                                       None \<Rightarrow> server_error_message
                                     | Some m \<Rightarrow> if m = [] then server_error_message else m),
                         key = Some ''error''\<rparr>]"
  using assms
  by (simp add: responseInterceptors_def Let_def handleError_def message_error_def or_else_def
      split: option.splits)

theorem business_error_response_witness:
  "\<not> code_is 200 (Some \<lparr>code = Some 404, message = Some ''not found'', result_data = None :: unit option\<rparr>)
   \<and> \<not> code_is 401 (Some \<lparr>code = Some 404, message = Some ''not found'', result_data = None :: unit option\<rparr>)
   \<and> snd (responseInterceptors ''token''
        \<lparr>config = \<lparr>method' = Some ''get'', url = Some ''/x'',
                    params = None :: (string \<times> string) list option,
                    data = None, headers = None, signal = Some 0\<rparr>,
         response_data = Some \<lparr>code = Some 404, message = Some ''not found'',
                    result_data = None :: unit option\<rparr>\<rparr>
        \<lparr>token_store = [(''token'', ''tok-123'')], localStorage = [],
         location_href = ''http://host/#/dashboard'', notices = [], navigations = []\<rparr>)
     = \<lparr>token_store = [(''token'', ''tok-123'')], localStorage = [],
        location_href = ''http://host/#/dashboard'',
        notices = [\<lparr>content = ''not found'', key = Some ''error''\<rparr>],
        navigations = []\<rparr>"
  using business_error_response [of
      "\<lparr>config = \<lparr>method' = Some ''get'', url = Some ''/x'',
                    params = None :: (string \<times> string) list option,
                    data = None, headers = None, signal = Some 0\<rparr>,
        response_data = Some \<lparr>code = Some 404, message = Some ''not found'',
                    result_data = None :: unit option\<rparr>\<rparr>"
      "''token''"
      "\<lparr>token_store = [(''token'', ''tok-123'')], localStorage = [],
        location_href = ''http://host/#/dashboard'', notices = [], navigations = []\<rparr>"]
  by (simp add: code_is_def message_of_def responseInterceptors_def Let_def handleError_def
      message_error_def or_else_def)




text \<open>
  Claim C9. For every request configuration that has a headers object: when the token
  store returns a non-empty credential \<open>t\<close>, \<open>requestInterceptors\<close> returns the
  configuration with the header \<open>Authorization\<close> set to \<open>t\<close> and nothing else changed; when
  the token store returns nothing or the empty string, the configuration is returned as it
  was.
\<close>

theorem authorization_header:
  assumes "headers res = Some h"
  shows "(getLocalInfo b tokenKey = Some t \<and> t \<noteq> [] \<longrightarrow>
            requestInterceptors tokenKey b res
              = res\<lparr>headers := Some (AList.update ''Authorization'' t h)\<rparr>
            \<and> map_of (AList.update ''Authorization'' t h) ''Authorization'' = Some t)
       \<and> (getLocalInfo b tokenKey = None \<or> getLocalInfo b tokenKey = Some [] \<longrightarrow>
            requestInterceptors tokenKey b res = res)"
  using assms
  by (auto simp: requestInterceptors_def or_else_def update_conv')

theorem authorization_header_witness:
  "getLocalInfo \<lparr>token_store = [(''token'', ''tok-123'')], localStorage = [],
       location_href = ''http://host/'', notices = [], navigations = []\<rparr> ''token'' = Some ''tok-123''
   \<and> requestInterceptors ''token''
        \<lparr>token_store = [(''token'', ''tok-123'')], localStorage = [],
         location_href = ''http://host/'', notices = [], navigations = []\<rparr>
        \<lparr>method' = Some ''get'', url = Some ''/x'', params = None :: (string \<times> string) list option,
         data = None, headers = Some [(''Accept'', ''application/json'')], signal = None\<rparr>
     = \<lparr>method' = Some ''get'', url = Some ''/x'', params = None, data = None,
        headers = Some [(''Accept'', ''application/json''), (''Authorization'', ''tok-123'')],
        signal = None\<rparr>
   \<and> requestInterceptors ''token''
        \<lparr>token_store = [], localStorage = [],
         location_href = ''http://host/'', notices = [], navigations = []\<rparr>
        \<lparr>method' = Some ''get'', url = Some ''/x'', params = None :: (string \<times> string) list option,
         data = None, headers = Some [(''Accept'', ''application/json'')], signal = None\<rparr>
     = \<lparr>method' = Some ''get'', url = Some ''/x'', params = None, data = None,
        headers = Some [(''Accept'', ''application/json'')], signal = None\<rparr>"
  using authorization_header [of
      "\<lparr>method' = Some ''get'', url = Some ''/x'', params = None :: (string \<times> string) list option,
        data = None, headers = Some [(''Accept'', ''application/json'')], signal = None\<rparr>"
      "[(''Accept'', ''application/json'')]"
      "\<lparr>token_store = [(''token'', ''tok-123'')], localStorage = [],
        location_href = ''http://host/'', notices = [], navigations = []\<rparr>"
      "''token''" "''tok-123''"]
    authorization_header [of
      "\<lparr>method' = Some ''get'', url = Some ''/x'', params = None :: (string \<times> string) list option,
        data = None, headers = Some [(''Accept'', ''application/json'')], signal = None\<rparr>"
      "[(''Accept'', ''application/json'')]"
      "\<lparr>token_store = [], localStorage = [],
        location_href = ''http://host/'', notices = [], navigations = []\<rparr>"
      "''token''" "''tok-123''"]
  by (simp add: getLocalInfo_def)




end
